theory Spec2Isabelle
  imports Main "HOL-Library.AList"
begin

section \<open>JavaScript values\<close>

text \<open>
  The values that flow through the form: field values, validator parameters, validator
  results and error messages. Numbers are restricted to the integer-valued ones plus
  \<open>NaN\<close>. A function object and any other object of the runtime that is not plain
  data are carried as opaque labels, which is enough for their truthiness and their
  \<open>typeof\<close>. Strings are character lists.
\<close>

datatype jsval =
    JUndefined
  | JNull
  | JBool bool
  | JNum int
  | JNaN
  | JStr string
  | JArr "jsval list"
  | JObj "(string \<times> jsval) list"
  | JFun string
  | JHost string

text \<open>What a \<open>throw\<close> carries: the runtime's \<open>TypeError\<close>, or anything else.\<close>

datatype exn = TypeError | Thrown jsval

text \<open>ToBoolean: what \<open>!v\<close>, \<open>v || w\<close> and \<open>if (v)\<close> test.\<close>

fun truthy :: "jsval \<Rightarrow> bool" where
  "truthy JUndefined = False"
| "truthy JNull = False"
| "truthy (JBool b) = b"
| "truthy (JNum n) = (n \<noteq> 0)"
| "truthy JNaN = False"
| "truthy (JStr s) = (s \<noteq> [])"
| "truthy (JArr xs) = True"
| "truthy (JObj ps) = True"
| "truthy (JFun f) = True"
| "truthy (JHost x) = True"

text \<open>\<open>a || b\<close> on values.\<close>

definition js_or :: "jsval \<Rightarrow> jsval \<Rightarrow> jsval" where
  "js_or a b = (if truthy a then a else b)"

fun is_object :: "jsval \<Rightarrow> bool" where
  "is_object (JArr xs) = True"
| "is_object (JObj ps) = True"
| "is_object (JFun f) = True"
| "is_object (JHost x) = True"
| "is_object v = False"

section \<open>Plain objects and their prototype\<close>

text \<open>
  The members every plain object inherits from \<open>Object.prototype\<close>: the constructor,
  the methods, and the accessor \<open>__proto__\<close>, whose value on a plain object is
  \<open>Object.prototype\<close> itself. All of them are truthy; all but \<open>__proto__\<close> are functions.
\<close>

definition object_prototype :: "string \<rightharpoonup> jsval" where
  "object_prototype =
     [''constructor'' \<mapsto> JFun ''Object'',
      ''__defineGetter__'' \<mapsto> JFun ''Object.prototype.__defineGetter__'',
      ''__defineSetter__'' \<mapsto> JFun ''Object.prototype.__defineSetter__'',
      ''hasOwnProperty'' \<mapsto> JFun ''Object.prototype.hasOwnProperty'',
      ''__lookupGetter__'' \<mapsto> JFun ''Object.prototype.__lookupGetter__'',
      ''__lookupSetter__'' \<mapsto> JFun ''Object.prototype.__lookupSetter__'',
      ''isPrototypeOf'' \<mapsto> JFun ''Object.prototype.isPrototypeOf'',
      ''propertyIsEnumerable'' \<mapsto> JFun ''Object.prototype.propertyIsEnumerable'',
      ''toString'' \<mapsto> JFun ''Object.prototype.toString'',
      ''valueOf'' \<mapsto> JFun ''Object.prototype.valueOf'',
      ''toLocaleString'' \<mapsto> JFun ''Object.prototype.toLocaleString'',
      ''__proto__'' \<mapsto> JHost ''Object.prototype'']"

text \<open>
  A plain object is the association list of its own properties, in the order
  \<open>Object.keys\<close> lists them (for names that are array indices, which JavaScript
  lists first, the list gives the properties and not their order). The read \<open>obj[k]\<close>
  finds an own property first and an inherited member otherwise. The three outcomes
  are kept apart for the objects whose own properties are not plain values (the
  schema, the registry, the touched map).
\<close>

type_synonym 'v obj = "(string \<times> 'v) list"

definition keys :: "'v obj \<Rightarrow> string list" where
  "keys obj = map fst obj"

datatype 'v property = Own 'v | Inherited jsval | Missing

definition js_lookup :: "(string \<rightharpoonup> 'v) \<Rightarrow> string \<Rightarrow> 'v property" where
  "js_lookup own k =
     (case own k of
        Some v \<Rightarrow> Own v
      | None \<Rightarrow> (case object_prototype k of Some m \<Rightarrow> Inherited m | None \<Rightarrow> Missing))"

text \<open>\<open>obj[k]\<close> on an object of plain values; a name found nowhere reads \<open>undefined\<close>.\<close>

definition get_prop :: "jsval obj \<Rightarrow> string \<Rightarrow> jsval" where
  "get_prop obj k =
     (case js_lookup (map_of obj) k of Own v \<Rightarrow> v | Inherited m \<Rightarrow> m | Missing \<Rightarrow> JUndefined)"

text \<open>
  The spread-and-set \<open>{...obj, [k]: v}\<close> defines an own property, overwriting in place
  or appending: \<open>AList.update\<close>. The assignment \<open>obj[k] = v\<close> does the same, except that
  on an object without an own \<open>__proto__\<close> the name \<open>__proto__\<close> reaches the inherited
  setter, which defines no own property.
\<close>

definition js_assign :: "string \<Rightarrow> 'v \<Rightarrow> 'v obj \<Rightarrow> 'v obj" where
  "js_assign k v obj =
     (if k = ''__proto__'' \<and> map_of obj k = None then obj else AList.update k v obj)"

text \<open>Decimal rendering of a number inside a template literal.\<close>

fun show_nat :: "nat \<Rightarrow> string" where
  "show_nat n =
     (if n < 10 then [''0123456789'' ! n]
      else show_nat (n div 10) @ [''0123456789'' ! (n mod 10)])"

definition show_int :: "int \<Rightarrow> string" where
  "show_int i = (if i < 0 then CHR ''-'' # show_nat (nat (- i)) else show_nat (nat i))"

section \<open>The host\<close>

text \<open>
  What the code asks of the JavaScript runtime and this development does not compute.
  Each component stands for the runtime operation named beside it; an operation that
  can throw returns a sum, with the exception on the left.
\<close>

datatype receiver = NoReceiver | RegistryObject

record host =
  emailRegex_test :: "jsval \<Rightarrow> exn + bool"
  regexp_test :: "jsval \<Rightarrow> jsval \<Rightarrow> exn + bool"
  rel_ge :: "jsval \<Rightarrow> jsval \<Rightarrow> exn + bool"
  rel_le :: "jsval \<Rightarrow> jsval \<Rightarrow> exn + bool"
  to_string :: "jsval \<Rightarrow> exn + string"
  host_length :: "jsval \<Rightarrow> jsval"
  member :: "jsval \<Rightarrow> jsval \<Rightarrow> exn + jsval"
  same_ref :: "jsval \<Rightarrow> jsval \<Rightarrow> bool"
  number_isNaN :: "jsval \<Rightarrow> exn + bool"
  number_ge :: "jsval \<Rightarrow> jsval \<Rightarrow> exn + bool"
  number_le :: "jsval \<Rightarrow> jsval \<Rightarrow> exn + bool"
  url_parses :: "jsval \<Rightarrow> bool"
  date_isNaN :: "jsval \<Rightarrow> exn + bool"
  invoke :: "string \<Rightarrow> receiver \<Rightarrow> jsval list \<Rightarrow> exn + jsval"

text \<open>
  \<^item> \<open>emailRegex_test v\<close> is \<open>emailRegex.test(v)\<close>; \<open>regexp_test r v\<close> is
    \<open>new RegExp(r).test(v)\<close>.
  \<^item> \<open>rel_ge a b\<close> and \<open>rel_le a b\<close> are \<open>a >= b\<close> and \<open>a <= b\<close> where the coercions of
    the operands are not computed below.
  \<^item> \<open>to_string v\<close> is the string conversion of an object.
  \<^item> \<open>host_length v\<close> is \<open>v.length\<close> of a function or runtime object.
  \<^item> \<open>member o k\<close> is \<open>o[k]\<close> for an \<open>o\<close> that is not a plain object.
  \<^item> \<open>same_ref a b\<close> tells whether two objects are the same object.
  \<^item> \<open>number_isNaN v\<close> is \<open>isNaN(Number(v))\<close>; \<open>number_ge v m\<close> and \<open>number_le v m\<close>
    are \<open>Number(v) >= m\<close> and \<open>Number(v) <= m\<close>.
  \<^item> \<open>url_parses v\<close> tells whether \<open>new URL(v)\<close> returns; \<open>date_isNaN v\<close> is
    \<open>isNaN(new Date(v).getTime())\<close>.
  \<^item> \<open>invoke f this args\<close> calls the inherited function labelled \<open>f\<close>, either as a
    method of the validator registry or as a plain function.
\<close>

text \<open>String conversion, as in \<open>`${v}`\<close> and in a property key.\<close>

definition js_to_string :: "host \<Rightarrow> jsval \<Rightarrow> exn + string" where
  "js_to_string h v =
     (case v of
        JUndefined \<Rightarrow> Inr ''undefined''
      | JNull \<Rightarrow> Inr ''null''
      | JBool b \<Rightarrow> Inr (if b then ''true'' else ''false'')
      | JNum n \<Rightarrow> Inr (show_int n)
      | JNaN \<Rightarrow> Inr ''NaN''
      | JStr s \<Rightarrow> Inr s
      | _ \<Rightarrow> to_string h v)"

text \<open>
  \<open>v.length\<close>, for a \<open>v\<close> that is neither \<open>null\<close> nor \<open>undefined\<close>. Numbers and
  booleans inherit no \<open>length\<close>.
\<close>

definition js_length :: "host \<Rightarrow> jsval \<Rightarrow> jsval" where
  "js_length h v =
     (case v of
        JStr s \<Rightarrow> JNum (int (length s))
      | JArr xs \<Rightarrow> JNum (int (length xs))
      | JObj ps \<Rightarrow> get_prop ps ''length''
      | JFun f \<Rightarrow> host_length h v
      | JHost x \<Rightarrow> host_length h v
      | _ \<Rightarrow> JUndefined)"

text \<open>
  \<open>a >= b\<close> and \<open>a <= b\<close>. Two numbers compare as numbers. When neither operand is an
  object and one of them is \<open>undefined\<close> or \<open>NaN\<close>, the comparison is false. The rest
  is the host's.
\<close>

definition never_ordered :: "jsval \<Rightarrow> jsval \<Rightarrow> bool" where
  "never_ordered a b =
     (\<not> is_object a \<and> \<not> is_object b
      \<and> (a = JUndefined \<or> a = JNaN \<or> b = JUndefined \<or> b = JNaN))"

definition js_ge :: "host \<Rightarrow> jsval \<Rightarrow> jsval \<Rightarrow> exn + bool" where
  "js_ge h a b =
     (case (a, b) of
        (JNum x, JNum y) \<Rightarrow> Inr (y \<le> x)
      | _ \<Rightarrow> if never_ordered a b then Inr False else rel_ge h a b)"

definition js_le :: "host \<Rightarrow> jsval \<Rightarrow> jsval \<Rightarrow> exn + bool" where
  "js_le h a b =
     (case (a, b) of
        (JNum x, JNum y) \<Rightarrow> Inr (x \<le> y)
      | _ \<Rightarrow> if never_ordered a b then Inr False else rel_le h a b)"

text \<open>
  \<open>o[k]\<close> for any value \<open>o\<close> and key \<open>k\<close>: \<open>undefined\<close> and \<open>null\<close> have no properties,
  a plain object is read as above under the key's string, the rest is the host's.
\<close>

definition js_member :: "host \<Rightarrow> jsval \<Rightarrow> jsval \<Rightarrow> exn + jsval" where
  "js_member h ob k =
     (case ob of
        JUndefined \<Rightarrow> Inl TypeError
      | JNull \<Rightarrow> Inl TypeError
      | JObj ps \<Rightarrow> (case js_to_string h k of Inl e \<Rightarrow> Inl e | Inr key \<Rightarrow> Inr (get_prop ps key))
      | _ \<Rightarrow> member h ob k)"

text \<open>\<open>a === b\<close>: by value on primitives (\<open>NaN\<close> equals nothing), by identity on objects.\<close>

definition strict_eq :: "host \<Rightarrow> jsval \<Rightarrow> jsval \<Rightarrow> bool" where
  "strict_eq h a b =
     (if is_object a \<and> is_object b then same_ref h a b
      else if a = JNaN then False
      else a = b)"

section \<open>validators.js\<close>

text \<open>
  A validator is called as \<open>f(value, ...params)\<close>: the first argument is the value,
  the list holds the rest. It returns a value or throws. A parameter that is not
  passed is \<open>undefined\<close>, and a parameter with a default takes it when the argument is
  missing or \<open>undefined\<close>.
\<close>

type_synonym validator = "jsval \<Rightarrow> jsval list \<Rightarrow> exn + jsval"

definition arg :: "jsval list \<Rightarrow> nat \<Rightarrow> jsval" where
  "arg args i = (if i < length args then args ! i else JUndefined)"

definition arg_or :: "jsval list \<Rightarrow> nat \<Rightarrow> jsval \<Rightarrow> jsval" where
  "arg_or args i dflt = (if arg args i = JUndefined then dflt else arg args i)"

definition required :: validator where
  "required v args =
     (if v = JNull \<or> v = JUndefined \<or> v = JStr [] then Inr (JStr ''This field is required'')
      else if (case v of JArr xs \<Rightarrow> xs = [] | _ \<Rightarrow> False)
      then Inr (JStr ''This field is required'')
      else Inr (JStr []))"

definition email :: "host \<Rightarrow> validator" where
  "email h v args =
     (if \<not> truthy v then Inr (JStr [])
      else case emailRegex_test h v of
             Inl e \<Rightarrow> Inl e
           | Inr ok \<Rightarrow> Inr (if ok then JStr [] else JStr ''Please enter a valid email address''))"

definition minLength :: "host \<Rightarrow> validator" where
  "minLength h v args =
     (let len = arg_or args 0 (JNum 1) in
      if \<not> truthy v then Inr (JStr [])
      else case js_ge h (js_length h v) len of
             Inl e \<Rightarrow> Inl e
           | Inr ok \<Rightarrow>
               if ok then Inr (JStr [])
               else case js_to_string h len of
                      Inl e \<Rightarrow> Inl e
                    | Inr l \<Rightarrow> Inr (JStr (''Must be at least '' @ l @ '' characters'')))"

definition maxLength :: "host \<Rightarrow> validator" where
  "maxLength h v args =
     (let len = arg_or args 0 (JNum 100) in
      if \<not> truthy v then Inr (JStr [])
      else case js_le h (js_length h v) len of
             Inl e \<Rightarrow> Inl e
           | Inr ok \<Rightarrow>
               if ok then Inr (JStr [])
               else case js_to_string h len of
                      Inl e \<Rightarrow> Inl e
                    | Inr l \<Rightarrow> Inr (JStr (''Must be no more than '' @ l @ '' characters'')))"

definition pattern :: "host \<Rightarrow> validator" where
  "pattern h v args =
     (let regex = arg args 0; msg = arg_or args 1 (JStr ''Invalid format'') in
      if \<not> truthy v then Inr (JStr [])
      else case regexp_test h regex v of
             Inl e \<Rightarrow> Inl e
           | Inr ok \<Rightarrow> Inr (if ok then JStr [] else msg))"

definition number :: "host \<Rightarrow> validator" where
  "number h v args =
     (if \<not> truthy v then Inr (JStr [])
      else case number_isNaN h v of
             Inl e \<Rightarrow> Inl e
           | Inr nan \<Rightarrow> Inr (if \<not> nan then JStr [] else JStr ''Must be a number''))"

definition min_validator :: "host \<Rightarrow> validator" where
  "min_validator h v args =
     (let m = arg args 0 in
      if \<not> truthy v then Inr (JStr [])
      else case number_ge h v m of
             Inl e \<Rightarrow> Inl e
           | Inr ok \<Rightarrow>
               if ok then Inr (JStr [])
               else case js_to_string h m of
                      Inl e \<Rightarrow> Inl e
                    | Inr l \<Rightarrow> Inr (JStr (''Must be at least '' @ l)))"

definition max_validator :: "host \<Rightarrow> validator" where
  "max_validator h v args =
     (let m = arg args 0 in
      if \<not> truthy v then Inr (JStr [])
      else case number_le h v m of
             Inl e \<Rightarrow> Inl e
           | Inr ok \<Rightarrow>
               if ok then Inr (JStr [])
               else case js_to_string h m of
                      Inl e \<Rightarrow> Inl e
                    | Inr l \<Rightarrow> Inr (JStr (''Must be no more than '' @ l)))"

text \<open>
  \<open>matches(value, fieldToMatch, values, message = 'Fields do not match')\<close> reads
  \<open>values[fieldToMatch]\<close>, which throws when \<open>values\<close> was not passed.
\<close>

definition matches :: "host \<Rightarrow> validator" where
  "matches h v args =
     (let fieldToMatch = arg args 0; vals = arg args 1;
          msg = arg_or args 2 (JStr ''Fields do not match'') in
      if \<not> truthy v then Inr (JStr [])
      else case js_member h vals fieldToMatch of
             Inl e \<Rightarrow> Inl e
           | Inr w \<Rightarrow> Inr (if strict_eq h v w then JStr [] else msg))"

definition url :: "host \<Rightarrow> validator" where
  "url h v args =
     (if \<not> truthy v then Inr (JStr [])
      else if url_parses h v then Inr (JStr []) else Inr (JStr ''Please enter a valid URL''))"

definition date :: "host \<Rightarrow> validator" where
  "date h v args =
     (if \<not> truthy v then Inr (JStr [])
      else case date_isNaN h v of
             Inl e \<Rightarrow> Inl e
           | Inr nan \<Rightarrow> Inr (if \<not> nan then JStr [] else JStr ''Please enter a valid date''))"

text \<open>
  \<open>compose(...validators)\<close> returns the function that runs each validator on
  \<open>(value, values)\<close> and returns the first error.
\<close>

fun compose ::
  "(jsval \<Rightarrow> jsval \<Rightarrow> exn + jsval) list \<Rightarrow> jsval \<Rightarrow> jsval \<Rightarrow> exn + jsval" where
  "compose [] v vs = Inr (JStr [])"
| "compose (f # fs) v vs =
     (case f v vs of
        Inl e \<Rightarrow> Inl e
      | Inr error \<Rightarrow> if truthy error then Inr error else compose fs v vs)"

text \<open>
  Looked up in the table and called as a validator, \<open>compose(value, ...params)\<close> calls
  nothing: it returns the composed function, a function object.
\<close>

definition compose_entry :: validator where
  "compose_entry v args = Inr (JFun ''compose(...)'')"

text \<open>The own properties of the table \<open>builtInValidators\<close>.\<close>

definition builtInValidators :: "host \<Rightarrow> string \<rightharpoonup> validator" where
  "builtInValidators h =
     [''required'' \<mapsto> required,
      ''email'' \<mapsto> email h,
      ''minLength'' \<mapsto> minLength h,
      ''maxLength'' \<mapsto> maxLength h,
      ''pattern'' \<mapsto> pattern h,
      ''number'' \<mapsto> number h,
      ''min'' \<mapsto> min_validator h,
      ''max'' \<mapsto> max_validator h,
      ''matches'' \<mapsto> matches h,
      ''url'' \<mapsto> url h,
      ''date'' \<mapsto> date h,
      ''compose'' \<mapsto> compose_entry]"

text \<open>
  \<open>createValidator(validatorFn, defaultMessage)\<close> returns the function
  \<open>(value, values) => validatorFn(value, values) ? '' : (defaultMessage || 'Validation failed')\<close>.
  A missing \<open>defaultMessage\<close> is \<open>undefined\<close>.
\<close>

definition createValidator ::
  "(jsval \<Rightarrow> jsval \<Rightarrow> exn + jsval) \<Rightarrow> jsval \<Rightarrow> jsval \<Rightarrow> jsval \<Rightarrow> exn + jsval" where
  "createValidator validatorFn defaultMessage v vs =
     (case validatorFn v vs of
        Inl e \<Rightarrow> Inl e
      | Inr ok \<Rightarrow>
          if truthy ok then Inr (JStr [])
          else Inr (js_or defaultMessage (JStr ''Validation failed'')))"

section \<open>useFormValidator.js: the schema\<close>

text \<open>
  The rule shapes of \<open>types.js\<close>. A \<open>ValidationRule\<close> is the object
  \<open>{validator, message, params}\<close> with \<open>validator\<close> a name or a function, called as
  \<open>validator(value, ...params)\<close>; a schema entry is a name, a function called as
  \<open>rule(value, values)\<close>, a \<open>ValidationRule\<close>, or an array of these. The prototype has
  no member named \<open>validator\<close>, \<open>message\<close> or \<open>params\<close>, so a property a rule object
  lacks reads \<open>undefined\<close>.
\<close>

datatype validator_ref = VName string | VFunc validator

record ValidationRule =
  validator :: validator_ref
  message :: "string option"
  params :: "jsval list option"

datatype rule =
    RName string
  | RFunc "jsval \<Rightarrow> jsval obj \<Rightarrow> exn + jsval"
  | RObj ValidationRule

datatype rules = Single rule | Array "rule list"

type_synonym ValidationSchema = "rules obj"

text \<open>
  \<open>{...builtInValidators, ...customValidators}\<close>: the own properties of the registry;
  a custom entry shadows a built-in.
\<close>

definition merge_validators ::
  "host \<Rightarrow> (string \<rightharpoonup> validator) \<Rightarrow> (string \<rightharpoonup> validator)" where
  "merge_validators h customValidators = builtInValidators h ++ customValidators"

text \<open>
  \<open>validators[name] && validators[name](value, ...args)\<close>. The registry is a plain
  object, so the read also finds the members of the prototype, all truthy: an
  inherited function is called as a method of the registry, and the call of the
  inherited object \<open>__proto__\<close> throws. \<open>None\<close> is a name found nowhere.
\<close>

definition call_validator ::
  "host \<Rightarrow> (string \<rightharpoonup> validator) \<Rightarrow> string \<Rightarrow> jsval \<Rightarrow> jsval list \<Rightarrow> (exn + jsval) option" where
  "call_validator h validators n v args =
     (case js_lookup validators n of
        Own f \<Rightarrow> Some (f v args)
      | Inherited m \<Rightarrow>
          (case m of
             JFun g \<Rightarrow> Some (invoke h g RegistryObject (v # args))
           | _ \<Rightarrow> Some (Inl TypeError))
      | Missing \<Rightarrow> None)"

text \<open>\<open>message || `Validation failed for ${name}`\<close>\<close>

definition failure_message :: "string option \<Rightarrow> string \<Rightarrow> jsval" where
  "failure_message msg name =
     (case msg of
        Some m \<Rightarrow> if m \<noteq> [] then JStr m else JStr (''Validation failed for '' @ name)
      | None \<Rightarrow> JStr (''Validation failed for '' @ name))"

text \<open>
  The body shared by the two places that handle a \<open>ValidationRule\<close>: \<open>Inr (Some e)\<close>
  is \<open>return e\<close>, \<open>Inr None\<close> is falling through to the next statement, \<open>Inl\<close> is an
  exception of the call.
\<close>

definition object_rule ::
  "host \<Rightarrow> (string \<rightharpoonup> validator) \<Rightarrow> string \<Rightarrow> jsval \<Rightarrow> ValidationRule
     \<Rightarrow> exn + jsval option" where
  "object_rule h validators name v r =
     (let ps = (case params r of None \<Rightarrow> [] | Some p \<Rightarrow> p) in
      case validator r of
        VName n \<Rightarrow>
          (case call_validator h validators n v ps of
             Some (Inl e) \<Rightarrow> Inl e
           | Some (Inr ok) \<Rightarrow>
               if \<not> truthy ok then Inr (Some (failure_message (message r) name)) else Inr None
           | None \<Rightarrow> Inr None)
      | VFunc f \<Rightarrow>
          (case f v ps of
             Inl e \<Rightarrow> Inl e
           | Inr ok \<Rightarrow>
               if \<not> truthy ok then Inr (Some (failure_message (message r) name)) else Inr None))"

text \<open>The \<open>for (const rule of fieldRules)\<close> loop, ending in \<open>return ''\<close>.\<close>

fun validate_rules ::
  "host \<Rightarrow> (string \<rightharpoonup> validator) \<Rightarrow> jsval obj \<Rightarrow> string \<Rightarrow> jsval \<Rightarrow> rule list
     \<Rightarrow> exn + jsval" where
  "validate_rules h validators vals name v [] = Inr (JStr [])"
| "validate_rules h validators vals name v (RName n # rest) =
     (case call_validator h validators n v [] of
        Some (Inl e) \<Rightarrow> Inl e
      | Some (Inr error) \<Rightarrow>
          if truthy error then Inr error else validate_rules h validators vals name v rest
      | None \<Rightarrow> validate_rules h validators vals name v rest)"
| "validate_rules h validators vals name v (RObj r # rest) =
     (case object_rule h validators name v r of
        Inl e \<Rightarrow> Inl e
      | Inr (Some e) \<Rightarrow> Inr e
      | Inr None \<Rightarrow> validate_rules h validators vals name v rest)"
| "validate_rules h validators vals name v (RFunc f # rest) =
     (case f v vals of
        Inl e \<Rightarrow> Inl e
      | Inr error \<Rightarrow>
          if truthy error then Inr error else validate_rules h validators vals name v rest)"

text \<open>
  \<open>validateField(name, value)\<close>, with what it closes over as arguments: the schema,
  the own properties of the merged validators and the \<open>values\<close> of the current render.
  The schema is a plain object: \<open>validationSchema[name]\<close> is an own entry, or an
  inherited member, or \<open>undefined\<close>. The empty name is the one falsy own entry. An
  inherited function is a function rule, called as a plain function; the inherited
  object \<open>__proto__\<close> is an object rule without a \<open>validator\<close>.
\<close>

definition validateField ::
  "host \<Rightarrow> ValidationSchema \<Rightarrow> (string \<rightharpoonup> validator) \<Rightarrow> jsval obj \<Rightarrow> string \<Rightarrow> jsval
     \<Rightarrow> exn + jsval" where
  "validateField h validationSchema validators vals name v =
     (case js_lookup (map_of validationSchema) name of
        Missing \<Rightarrow> Inr (JStr [])
      | Own (Array fieldRules) \<Rightarrow> validate_rules h validators vals name v fieldRules
      | Own (Single (RName n)) \<Rightarrow>
          (if n = [] then Inr (JStr [])
           else case call_validator h validators n v [] of
                  Some (Inl e) \<Rightarrow> Inl e
                | Some (Inr r) \<Rightarrow> Inr (js_or r (JStr []))
                | None \<Rightarrow> Inr (JStr []))
      | Own (Single (RFunc f)) \<Rightarrow>
          (case f v vals of Inl e \<Rightarrow> Inl e | Inr r \<Rightarrow> Inr (js_or r (JStr [])))
      | Own (Single (RObj r)) \<Rightarrow>
          (case object_rule h validators name v r of
             Inl e \<Rightarrow> Inl e
           | Inr (Some e) \<Rightarrow> Inr e
           | Inr None \<Rightarrow> Inr (JStr []))
      | Inherited m \<Rightarrow>
          (case m of
             JFun g \<Rightarrow>
               (case invoke h g NoReceiver [v, JObj vals] of
                  Inl e \<Rightarrow> Inl e
                | Inr r \<Rightarrow> Inr (js_or r (JStr [])))
           | _ \<Rightarrow> Inr (JStr [])))"

section \<open>useFormValidator.js: the controller\<close>

record options =
  validateOnChange :: bool
  validateOnBlur :: bool
  validateOnSubmit :: bool
  customValidators :: "string \<rightharpoonup> validator"

text \<open>
  The arguments of the hook, fixed for the life of the form, and the host. The initial
  values, the schema and the custom validators are plain objects, as object literals
  are.
\<close>

record form =
  initialValues :: "jsval obj"
  validationSchema :: ValidationSchema
  opts :: options
  runtime :: host

text \<open>
  The four \<open>useState\<close> cells. Every operation below runs against the state of the
  latest render and returns the state of the next one. A handler that throws has
  already queued the updates it made before: it returns the state they give and the
  exception.
\<close>

record form_state =
  form_values :: "jsval obj"
  touched :: "bool obj"
  errors :: "jsval obj"
  isSubmitting :: bool

definition useFormValidator :: "form \<Rightarrow> form_state" where
  "useFormValidator fm =
     \<lparr>form_values = initialValues fm, touched = [], errors = [], isSubmitting = False\<rparr>"

definition validators_of :: "form \<Rightarrow> string \<rightharpoonup> validator" where
  "validators_of fm = merge_validators (runtime fm) (customValidators (opts fm))"

definition field_error :: "form \<Rightarrow> form_state \<Rightarrow> string \<Rightarrow> jsval \<Rightarrow> exn + jsval" where
  "field_error fm s name v =
     validateField (runtime fm) (validationSchema fm) (validators_of fm) (form_values s) name v"

text \<open>
  \<open>validateForm\<close>: the \<open>forEach\<close> over \<open>Object.keys(validationSchema)\<close> threads
  \<open>(newErrors, hasErrors)\<close>; then \<open>setErrors(newErrors)\<close> and the result \<open>!hasErrors\<close>.
  An exception of a field's validation leaves the loop before \<open>setErrors\<close>.
\<close>

fun validate_each ::
  "form \<Rightarrow> form_state \<Rightarrow> string list \<Rightarrow> jsval obj \<times> bool \<Rightarrow> exn + jsval obj \<times> bool" where
  "validate_each fm s [] acc = Inr acc"
| "validate_each fm s (field # rest) (newErrors, hasErrors) =
     (case field_error fm s field (get_prop (form_values s) field) of
        Inl e \<Rightarrow> Inl e
      | Inr error \<Rightarrow>
          if truthy error
          then validate_each fm s rest (js_assign field error newErrors, True)
          else validate_each fm s rest (newErrors, hasErrors))"

definition validateForm :: "form \<Rightarrow> form_state \<Rightarrow> form_state \<times> (exn + bool)" where
  "validateForm fm s =
     (case validate_each fm s (keys (validationSchema fm)) ([], False) of
        Inl e \<Rightarrow> (s, Inl e)
      | Inr (newErrors, hasErrors) \<Rightarrow> (s\<lparr>errors := newErrors\<rparr>, Inr (\<not> hasErrors)))"

text \<open>\<open>e.target\<close> of a change or blur event.\<close>

record target =
  target_name :: string
  target_value :: jsval

text \<open>
  \<open>touched[name]\<close> as a condition. The touched map is a plain object, so a name it
  does not hold but the prototype does reads truthy.
\<close>

definition touched_at :: "form_state \<Rightarrow> string \<Rightarrow> bool" where
  "touched_at s name =
     (case js_lookup (map_of (touched s)) name of
        Own b \<Rightarrow> b
      | Inherited m \<Rightarrow> truthy m
      | Missing \<Rightarrow> False)"

text \<open>The touched map itself marks the name: it holds \<open>true\<close> under it.\<close>

definition is_touched :: "form_state \<Rightarrow> string \<Rightarrow> bool" where
  "is_touched s name = (map_of (touched s) name = Some True)"

definition setValue ::
  "form \<Rightarrow> string \<Rightarrow> jsval \<Rightarrow> form_state \<Rightarrow> form_state \<times> exn option" where
  "setValue fm name v s =
     (let s1 = s\<lparr>form_values := AList.update name v (form_values s)\<rparr> in
      if validateOnChange (opts fm) \<and> touched_at s name
      then (case field_error fm s name v of
              Inl e \<Rightarrow> (s1, Some e)
            | Inr error \<Rightarrow> (s1\<lparr>errors := AList.update name error (errors s1)\<rparr>, None))
      else (s1, None))"

definition handleChange :: "form \<Rightarrow> target \<Rightarrow> form_state \<Rightarrow> form_state \<times> exn option" where
  "handleChange fm e s =
     (let name = target_name e; v = target_value e;
          s1 = s\<lparr>form_values := AList.update name v (form_values s)\<rparr> in
      if validateOnChange (opts fm) \<and> touched_at s name
      then (case field_error fm s name v of
              Inl e \<Rightarrow> (s1, Some e)
            | Inr error \<Rightarrow> (s1\<lparr>errors := AList.update name error (errors s1)\<rparr>, None))
      else (s1, None))"

definition handleBlur :: "form \<Rightarrow> target \<Rightarrow> form_state \<Rightarrow> form_state \<times> exn option" where
  "handleBlur fm e s =
     (let name = target_name e;
          s1 = s\<lparr>touched := AList.update name True (touched s)\<rparr> in
      if validateOnBlur (opts fm)
      then (case field_error fm s name (get_prop (form_values s) name) of
              Inl e \<Rightarrow> (s1, Some e)
            | Inr error \<Rightarrow> (s1\<lparr>errors := AList.update name error (errors s1)\<rparr>, None))
      else (s1, None))"

text \<open>
  \<open>resetForm(newValues = {})\<close>: the default replaces a missing (or \<open>undefined\<close>)
  argument before the body runs, so the body sees \<open>{}\<close>; \<open>null\<close> is the one falsy
  argument of the declared type, and an object is truthy.
\<close>

datatype 'a argument = Absent | Null | Given 'a

definition resetForm :: "form \<Rightarrow> jsval obj argument \<Rightarrow> form_state \<Rightarrow> form_state" where
  "resetForm fm a s =
     (let newValues = (case a of Absent \<Rightarrow> Given [] | _ \<Rightarrow> a) in
      s\<lparr>form_values := (case newValues of Given vs \<Rightarrow> vs | _ \<Rightarrow> initialValues fm),
        touched := [],
        errors := [],
        isSubmitting := False\<rparr>)"

text \<open>
  The submit callback receives the values and the helpers \<open>{setErrors, resetForm}\<close>.
  What it does to the form is the list of helper calls it makes, in order; whether it
  then returns, resolves or throws makes no difference to the state, since the
  \<open>catch\<close> only logs.
\<close>

datatype helper_call = SetErrors "jsval obj" | ResetForm "jsval obj argument"

type_synonym callback = "jsval obj \<Rightarrow> helper_call list"

fun run_helper :: "form \<Rightarrow> helper_call \<Rightarrow> form_state \<Rightarrow> form_state" where
  "run_helper fm (SetErrors es) s = s\<lparr>errors := es\<rparr>"
| "run_helper fm (ResetForm a) s = resetForm fm a s"

text \<open>\<open>Object.keys(values).reduce((acc, key) => ({...acc, [key]: true}), {})\<close>\<close>

definition touch_all :: "jsval obj \<Rightarrow> bool obj" where
  "touch_all vals = foldl (\<lambda>acc key. AList.update key True acc) [] (keys vals)"

text \<open>
  \<open>handleSubmit(onSubmit)(e)\<close> up to the callback: the state the form shows while
  the callback is pending, and the flag \<open>isValid\<close>; or, when \<open>validateForm\<close> throws,
  the state with the touched map replaced and the exception.
\<close>

definition submit_begin :: "form \<Rightarrow> form_state \<Rightarrow> form_state \<times> (exn + bool)" where
  "submit_begin fm s =
     (let s1 = s\<lparr>touched := touch_all (form_values s)\<rparr> in
      if validateOnSubmit (opts fm)
      then (case validateForm fm s1 of
              (s2, Inl e) \<Rightarrow> (s2, Inl e)
            | (s2, Inr ok) \<Rightarrow> (s2\<lparr>isSubmitting := True\<rparr>, Inr ok))
      else (s1\<lparr>isSubmitting := True\<rparr>, Inr True))"

text \<open>
  The whole of \<open>handleSubmit\<close>: the final state, the arguments of every invocation of
  the callback, and the exception the returned promise is rejected with, if any.
\<close>

definition handleSubmit ::
  "form \<Rightarrow> callback option \<Rightarrow> form_state \<Rightarrow> form_state \<times> jsval obj list \<times> exn option" where
  "handleSubmit fm onSubmit s =
     (case submit_begin fm s of
        (s3, Inl e) \<Rightarrow> (s3, [], Some e)
      | (s3, Inr ok) \<Rightarrow>
          (case onSubmit of
             Some cb \<Rightarrow>
               if ok
               then ((fold (run_helper fm) (cb (form_values s)) s3)\<lparr>isSubmitting := False\<rparr>,
                     [form_values s], None)
               else (s3\<lparr>isSubmitting := False\<rparr>, [], None)
           | None \<Rightarrow> (s3\<lparr>isSubmitting := False\<rparr>, [], None)))"



text \<open>\<open>Object.keys(errors).length === 0\<close>\<close>

definition isValid :: "form_state \<Rightarrow> bool" where
  "isValid s = (length (keys (errors s)) = 0)"

text \<open>
  The operations a user of the hook can perform, and a run of them from construction,
  each followed by a render; an exception of a handler ends the handler, not the form.
\<close>

datatype operation =
    Change target
  | Blur target
  | SetValue string jsval
  | Submit "callback option"
  | Reset "jsval obj argument"
  | Validate

fun apply_operation :: "form \<Rightarrow> form_state \<Rightarrow> operation \<Rightarrow> form_state" where
  "apply_operation fm s (Change e) = fst (handleChange fm e s)"
| "apply_operation fm s (Blur e) = fst (handleBlur fm e s)"
| "apply_operation fm s (SetValue name v) = fst (setValue fm name v s)"
| "apply_operation fm s (Submit cb) = fst (handleSubmit fm cb s)"
| "apply_operation fm s (Reset a) = resetForm fm a s"
| "apply_operation fm s Validate = fst (validateForm fm s)"

definition run :: "form \<Rightarrow> operation list \<Rightarrow> form_state" where
  "run fm ops = foldl (apply_operation fm) (useFormValidator fm) ops"

section \<open>Reading the results\<close>








definition is_reset :: "helper_call \<Rightarrow> bool" where
  "is_reset c = (case c of ResetForm a \<Rightarrow> True | SetErrors es \<Rightarrow> False)"

section \<open>Forms of the documentation\<close>

text \<open>
  A host for running the examples. Unless an example says so, its outcome does not
  depend on what this host answers. Of the inherited functions it knows
  \<open>Object.prototype.toString\<close> only.
\<close>

definition example_host :: host where
  "example_host =
     \<lparr>emailRegex_test = (\<lambda>v. Inr False),
      regexp_test = (\<lambda>r v. Inr False),
      rel_ge = (\<lambda>a b. Inr False),
      rel_le = (\<lambda>a b. Inr False),
      to_string = (\<lambda>v. Inr ''[object Object]''),
      host_length = (\<lambda>v. JNum 0),
      member = (\<lambda>ob k. Inr JUndefined),
      same_ref = (\<lambda>a b. False),
      number_isNaN = (\<lambda>v. Inr True),
      number_ge = (\<lambda>v m. Inr False),
      number_le = (\<lambda>v m. Inr False),
      url_parses = (\<lambda>v. False),
      date_isNaN = (\<lambda>v. Inr True),
      invoke = (\<lambda>f this args.
         if f = ''Object.prototype.toString''
         then Inr (JStr (case this of RegistryObject \<Rightarrow> ''[object Object]''
                         | NoReceiver \<Rightarrow> ''[object Undefined]''))
         else Inl TypeError)\<rparr>"

text \<open>The options when none are passed, and the registry they give.\<close>

definition default_options :: options where
  "default_options =
     \<lparr>validateOnChange = True, validateOnBlur = True, validateOnSubmit = True,
      customValidators = Map.empty\<rparr>"

definition default_registry :: "string \<rightharpoonup> validator" where
  "default_registry = merge_validators example_host Map.empty"


text \<open>\<open>{password: [{validator: 'minLength', params: [8], message: 'too short'}]}\<close>\<close>

definition password_schema :: ValidationSchema where
  "password_schema =
     [(''password'',
       Array [RObj \<lparr>validator = VName ''minLength'', message = Some ''too short'',
                   params = Some [JNum 8]\<rparr>])]"


text \<open>\<open>{name: 'required'}\<close>, and the form over it with default options.\<close>

definition name_schema :: ValidationSchema where
  "name_schema = [(''name'', Single (RName ''required''))]"

definition required_name_form :: "jsval obj \<Rightarrow> host \<Rightarrow> form" where
  "required_name_form iv h =
     \<lparr>initialValues = iv, validationSchema = name_schema, opts = default_options, runtime = h\<rparr>"

definition ann_form :: form where
  "ann_form = required_name_form [(''name'', JStr ''Ann'')] example_host"


text \<open>The target of an event on the input \<open>name\<close>, and of one on an input the form lacks.\<close>

definition name_target :: "jsval \<Rightarrow> target" where
  "name_target v = \<lparr>target_name = ''name'', target_value = v\<rparr>"

definition ghost_target :: target where
  "ghost_target = \<lparr>target_name = ''ghost'', target_value = JStr []\<rparr>"

text \<open>
  A form with one value, \<open>email\<close>, and a schema that also has \<open>phone\<close>; and a
  callback that calls \<open>setErrors({})\<close>.
\<close>

definition signup_form :: form where
  "signup_form =
     \<lparr>initialValues = [(''email'', JStr [])],
      validationSchema =
        [(''email'', Array [RName ''required'', RName ''email'']),
         (''phone'', Single (RName ''required''))],
      opts = default_options, runtime = example_host\<rparr>"

definition clear_errors :: callback where
  "clear_errors vals = [SetErrors []]"










section \<open>The validators\<close>

lemma prototype_names:
  "object_prototype ''required'' = None" "object_prototype ''email'' = None"
  "object_prototype ''minLength'' = None" "object_prototype ''matches'' = None"
  "object_prototype ''postcode'' = None" "object_prototype ''name'' = None"
  "object_prototype ''validator'' = None" "object_prototype ''message'' = None"
  "object_prototype ''params'' = None" "object_prototype ''length'' = None"
  "object_prototype ''constructor'' = Some (JFun ''Object'')"
  "object_prototype ''toString'' = Some (JFun ''Object.prototype.toString'')"
  "object_prototype ''__proto__'' = Some (JHost ''Object.prototype'')"
  by (simp_all add: object_prototype_def)


lemma builtin_required: "merge_validators h Map.empty ''required'' = Some required"
  by (simp add: merge_validators_def builtInValidators_def)


lemma builtin_minLength: "merge_validators h Map.empty ''minLength'' = Some (minLength h)"
  by (simp add: merge_validators_def builtInValidators_def)




lemma builtin_toString: "merge_validators h Map.empty ''toString'' = None"
  by (simp add: merge_validators_def builtInValidators_def)

lemma call_required:
  "call_validator h (merge_validators h' Map.empty) ''required'' v args = Some (required v args)"
  by (simp add: call_validator_def js_lookup_def builtin_required)


lemma call_minLength:
  "call_validator h (merge_validators h' Map.empty) ''minLength'' v args
     = Some (minLength h' v args)"
  by (simp add: call_validator_def js_lookup_def builtin_minLength)




lemma call_toString:
  "call_validator h (merge_validators h' Map.empty) ''toString'' v args
     = Some (invoke h ''Object.prototype.toString'' RegistryObject (v # args))"
  by (simp add: call_validator_def js_lookup_def builtin_toString prototype_names)



lemma required_nonempty: "s \<noteq> [] \<Longrightarrow> required (JStr s) args = Inr (JStr [])"
  by (simp add: required_def)


lemma minLength_abc_8:
  "minLength h (JStr ''abc'') [JNum 8] = Inr (JStr ''Must be at least 8 characters'')"
  by (simp add: minLength_def arg_or_def arg_def js_ge_def js_length_def js_to_string_def
      show_int_def)

lemma minLength_abcdefgh_8: "minLength h (JStr ''abcdefgh'') [JNum 8] = Inr (JStr [])"
  by (simp add: minLength_def arg_or_def arg_def js_ge_def js_length_def)


text \<open>What \<open>createValidator\<close> does with a predicate and a string or missing message.\<close>

lemma createValidator_empty_iff:
  "createValidator p m v vs = Inr (JStr []) \<longleftrightarrow> (\<exists>r. p v vs = Inr r \<and> truthy r)"
  by (auto simp: createValidator_def js_or_def split: sum.splits)

lemma createValidator_string_message:
  "p v vs = Inr r \<Longrightarrow> \<not> truthy r \<Longrightarrow> m \<noteq> [] \<Longrightarrow>
   createValidator p (JStr m) v vs = Inr (JStr m)"
  by (simp add: createValidator_def js_or_def)

lemma createValidator_default_message:
  "p v vs = Inr r \<Longrightarrow> \<not> truthy r \<Longrightarrow>
   createValidator p JUndefined v vs = Inr (JStr ''Validation failed'')"
  by (simp add: createValidator_def js_or_def)

text \<open>
  C4. \<open>createValidator(pred, msg)(v)\<close> is to invoke \<open>msg\<close> when \<open>msg\<close> is a function and
  return the message it computes. At the input of the repository's own test
  (\<open>isMultipleOf('5', 3)\<close>, a predicate that fails there and a message function) the
  code returns the message function itself, uncalled: the result is a function
  object, not a string.
\<close>

theorem createValidator_returns_message_function:
  "createValidator (\<lambda>v m. Inr (JBool (v = JStr ''6''))) (JFun ''message'') (JStr ''5'') (JNum 3)
     = Inr (JFun ''message'')"
  by (simp add: createValidator_def js_or_def)

section \<open>Resolving a field's error\<close>



text \<open>
  A \<open>ValidationRule\<close> whose call returns a falsy value yields the message, or the
  fallback that names the field.
\<close>

lemma object_rule_failure:
  "call_validator h validators n v ps = Some (Inr r) \<Longrightarrow> \<not> truthy r \<Longrightarrow>
   object_rule h validators name v \<lparr>validator = VName n, message = m, params = Some ps\<rparr>
     = Inr (Some (failure_message m name))"
  by (simp add: object_rule_def)

lemma failure_message_fallback:
  "failure_message None name = JStr (''Validation failed for '' @ name)"
  by (simp add: failure_message_def)

text \<open>
  C1. For the schema \<open>{password: [{validator: 'minLength', params: [8], message: 'too short'}]}\<close>
  and the value \<open>'abc'\<close> the error of \<open>password\<close> is to be \<open>'too short'\<close>. The code
  returns the empty string: \<open>minLength('abc', 8)\<close> is the non-empty string
  \<open>'Must be at least 8 characters'\<close>, which the object-rule branch reads as success.
\<close>

theorem password_abc_has_no_error:
  "validateField h password_schema (merge_validators h Map.empty) vals ''password''
     (JStr ''abc'') = Inr (JStr [])"
  by (simp add: validateField_def js_lookup_def password_schema_def object_rule_def
      call_minLength minLength_abc_8)

text \<open>The same rule rejects a password that is long enough.\<close>

lemma long_password_is_too_short:
  "validateField h password_schema (merge_validators h Map.empty) vals ''password''
     (JStr ''abcdefgh'') = Inr (JStr ''too short'')"
  by (simp add: validateField_def js_lookup_def password_schema_def object_rule_def
      call_minLength minLength_abcdefgh_8 failure_message_def)






text \<open>
  On the example host the name \<open>toString\<close>, also absent from the registry, is run and
  its result becomes the error.
\<close>

lemma toString_rule_is_run:
  "validateField example_host [(''zip'', Single (RName ''toString''))] default_registry []
     ''zip'' (JStr ''x'') = Inr (JStr ''[object Object]'')"
  by (simp add: validateField_def js_lookup_def default_registry_def call_toString)
     (simp add: example_host_def js_or_def)



section \<open>The controller\<close>

subsection \<open>Examples evaluated\<close>

lemma name_target_fields:
  "target_name (name_target v) = ''name''" "target_value (name_target v) = v"
  by (simp_all add: name_target_def)

lemma field_error_required_name:
  "field_error (required_name_form iv h) s ''name'' v = required v []"
proof -
  have "validators_of (required_name_form iv h) = merge_validators h Map.empty"
    by (simp add: validators_of_def required_name_form_def default_options_def)
  then show ?thesis
    by (simp add: field_error_def validateField_def js_lookup_def required_name_form_def
        name_schema_def call_required js_or_def required_def)
qed


lemma ann_blur:
  "run ann_form [Blur (name_target (JStr ''Ann''))]
     = \<lparr>form_values = [(''name'', JStr ''Ann'')], touched = [(''name'', True)],
        errors = [(''name'', JStr [])], isSubmitting = False\<rparr>"
proof -
  have o: "validateOnBlur (opts ann_form)"
    by (simp add: ann_form_def required_name_form_def default_options_def)
  have i: "initialValues ann_form = [(''name'', JStr ''Ann'')]"
    by (simp add: ann_form_def required_name_form_def)
  have e: "field_error ann_form s ''name'' (JStr ''Ann'') = Inr (JStr [])" for s
    by (simp add: ann_form_def field_error_required_name required_nonempty)
  show ?thesis
    by (simp add: run_def handleBlur_def useFormValidator_def name_target_fields Let_def
        o i e get_prop_def js_lookup_def)
qed



lemma signup_initial:
  "useFormValidator signup_form
     = \<lparr>form_values = [(''email'', JStr [])], touched = [], errors = [],
        isSubmitting = False\<rparr>"
  by (simp add: useFormValidator_def signup_form_def)





lemma ghost_blur:
  "run signup_form [Blur ghost_target]
     = \<lparr>form_values = [(''email'', JStr [])], touched = [(''ghost'', True)],
        errors = [(''ghost'', JStr [])], isSubmitting = False\<rparr>"
proof -
  have "js_lookup (map_of (validationSchema signup_form)) ''ghost'' = Missing"
    by (simp add: signup_form_def js_lookup_def object_prototype_def)
  then have "field_error signup_form s ''ghost'' v = Inr (JStr [])" for s v
    by (simp add: field_error_def validateField_def)
  moreover have "validateOnBlur (opts signup_form)"
    by (simp add: signup_form_def default_options_def)
  ultimately show ?thesis
    by (simp add: run_def handleBlur_def signup_initial ghost_target_def Let_def)
qed








subsection \<open>resetForm\<close>

lemma resetForm_Absent:
  "resetForm fm Absent s = \<lparr>form_values = [], touched = [], errors = [], isSubmitting = False\<rparr>"
  by (simp add: resetForm_def)

lemma resetForm_Null:
  "resetForm fm Null s
     = \<lparr>form_values = initialValues fm, touched = [], errors = [], isSubmitting = False\<rparr>"
  by (simp add: resetForm_def)

lemma resetForm_Given:
  "resetForm fm (Given vs) s
     = \<lparr>form_values = vs, touched = [], errors = [], isSubmitting = False\<rparr>"
  by (simp add: resetForm_def)

text \<open>
  C2. \<open>resetForm()\<close> with no argument is to restore the values to the initial values
  given at construction. The parameter default \<open>newValues = {}\<close> is applied first, so
  \<open>newValues || initialValues\<close> never reaches \<open>initialValues\<close>: on the form constructed
  with \<open>{name: 'Ann'}\<close>, after one change, \<open>resetForm()\<close> leaves the values empty.
\<close>

theorem resetForm_without_argument_empties_values:
  "form_values (resetForm ann_form Absent (run ann_form [Change (name_target (JStr ''Bob''))]))
     = []
   \<and> initialValues ann_form = [(''name'', JStr ''Ann'')]"
  by (simp add: resetForm_Absent ann_form_def required_name_form_def)

subsection \<open>isValid\<close>

text \<open>
  C3. \<open>isValid\<close> is to be true exactly when the error map has no non-empty entry.
  A blur on a field that passes validation stores the empty string under the field's
  name, and \<open>isValid\<close> counts keys: on the form \<open>{name: 'Ann'}\<close> with schema
  \<open>{name: 'required'}\<close>, after \<open>blur('name')\<close> the only entry is empty and \<open>isValid\<close> is
  false.
\<close>

theorem isValid_false_after_passing_blur:
  "errors (run ann_form [Blur (name_target (JStr ''Ann''))]) = [(''name'', JStr [])]
   \<and> \<not> isValid (run ann_form [Blur (name_target (JStr ''Ann''))])"
  by (simp add: ann_blur isValid_def keys_def)

subsection \<open>change and setValue\<close>







subsection \<open>getFieldProps\<close>




subsection \<open>validateForm and submit\<close>

lemma map_of_touch_fold:
  "map_of (foldl (\<lambda>acc key. AList.update key True acc) acc ks) k
     = (if k \<in> set ks then Some True else map_of acc k)"
  by (induction ks arbitrary: acc) (auto simp: update_conv')

lemma map_of_touch_all:
  "map_of (touch_all vals) k = (if k \<in> set (keys vals) then Some True else None)"
  by (simp add: touch_all_def map_of_touch_fold)

lemma update_fresh: "k \<notin> fst ` set al \<Longrightarrow> AList.update k v al = al @ [(k, v)]"
  by (induction al) auto

lemma touch_fold_distinct:
  "distinct ks \<Longrightarrow> set ks \<inter> fst ` set acc = {} \<Longrightarrow>
   foldl (\<lambda>acc key. AList.update key True acc) acc ks = acc @ map (\<lambda>k. (k, True)) ks"
proof (induction ks arbitrary: acc)
  case Nil
  then show ?case by simp
next
  case (Cons k ks)
  from Cons.prems have fresh: "k \<notin> fst ` set acc" by auto
  from Cons.prems have "set ks \<inter> fst ` set (acc @ [(k, True)]) = {}" by auto
  with Cons.IH [of "acc @ [(k, True)]"] Cons.prems fresh show ?case
    by (simp add: update_fresh)
qed

lemma touch_all_distinct:
  "distinct (keys vals) \<Longrightarrow> touch_all vals = map (\<lambda>k. (k, True)) (keys vals)"
  using touch_fold_distinct [of "keys vals" "[]"] by (simp add: touch_all_def)
















lemma helpers_keep_touched:
  "\<not> list_ex is_reset calls \<Longrightarrow> touched (fold (run_helper fm) calls s) = touched s"
proof (induction calls arbitrary: s)
  case Nil
  then show ?case by simp
next
  case (Cons c calls)
  then show ?case by (cases c) (simp_all add: is_reset_def)
qed

lemma validateForm_frame:
  "touched (fst (validateForm fm s)) = touched s"
  by (simp add: validateForm_def split: sum.splits prod.splits)

lemma submit_begin_touched:
  "touched (fst (submit_begin fm s)) = touch_all (form_values s)"
proof -
  let ?s1 = "s\<lparr>touched := touch_all (form_values s)\<rparr>"
  obtain s2 r where v: "validateForm fm ?s1 = (s2, r)"
    by (cases "validateForm fm ?s1")
  from validateForm_frame [of fm ?s1] v have "touched s2 = touch_all (form_values s)"
    by simp
  then show ?thesis
    by (cases r) (simp_all add: submit_begin_def Let_def v)
qed

text \<open>
  C9. \<open>handleSubmit\<close> replaces the touched map wholesale by the map that marks exactly
  the current keys of the values: a field touched before but absent from the values is
  no longer marked, and a field that only the schema has is not marked. The state
  shown while the callback is pending has this map, also when validation throws, and
  so has the final state unless the callback, when it is invoked, calls \<open>resetForm\<close>.
\<close>

theorem submit_touches_value_keys:
  "touched (fst (submit_begin fm s)) = touch_all (form_values s)
   \<and> (\<forall>k. is_touched (fst (submit_begin fm s)) k \<longleftrightarrow> k \<in> set (keys (form_values s)))
   \<and> (\<forall>k. k \<notin> set (keys (form_values s)) \<longrightarrow>
         map_of (touched (fst (submit_begin fm s))) k = None)
   \<and> (distinct (keys (form_values s)) \<longrightarrow>
         touched (fst (submit_begin fm s)) = map (\<lambda>k. (k, True)) (keys (form_values s)))
   \<and> ((case onSubmit of None \<Rightarrow> True
         | Some cb \<Rightarrow> snd (submit_begin fm s) \<noteq> Inr True
                      \<or> \<not> list_ex is_reset (cb (form_values s))) \<longrightarrow>
         touched (fst (handleSubmit fm onSubmit s)) = touch_all (form_values s))"
proof -
  have b: "touched (fst (submit_begin fm s)) = touch_all (form_values s)"
    by (rule submit_begin_touched)
  have f: "(case onSubmit of None \<Rightarrow> True
         | Some cb \<Rightarrow> snd (submit_begin fm s) \<noteq> Inr True
                      \<or> \<not> list_ex is_reset (cb (form_values s))) \<longrightarrow>
         touched (fst (handleSubmit fm onSubmit s)) = touch_all (form_values s)"
    using b
    by (auto simp: handleSubmit_def helpers_keep_touched
        split: option.splits prod.splits sum.splits)
  from b f show ?thesis
    by (simp add: is_touched_def map_of_touch_all touch_all_distinct)
qed

theorem submit_touches_value_keys_witness:
  "is_touched (run signup_form [Blur ghost_target]) ''ghost''
   \<and> ''ghost'' \<notin> set (keys (form_values (run signup_form [Blur ghost_target])))
   \<and> ''phone'' \<notin> set (keys (form_values (run signup_form [Blur ghost_target])))
   \<and> distinct (keys (form_values (run signup_form [Blur ghost_target])))
   \<and> \<not> list_ex is_reset (clear_errors (form_values (run signup_form [Blur ghost_target])))
   \<and> touched (fst (submit_begin signup_form (run signup_form [Blur ghost_target])))
        = [(''email'', True)]
   \<and> touched (fst (handleSubmit signup_form (Some clear_errors)
        (run signup_form [Blur ghost_target]))) = [(''email'', True)]
   \<and> map_of (touched (fst (submit_begin signup_form (run signup_form [Blur ghost_target]))))
        ''ghost'' = None
   \<and> map_of (touched (fst (submit_begin signup_form (run signup_form [Blur ghost_target]))))
        ''phone'' = None"
proof -
  have t: "touch_all [(''email'', JStr [])] = [(''email'', True)]"
    by (simp add: touch_all_def keys_def)
  from submit_touches_value_keys [of signup_form "run signup_form [Blur ghost_target]"
      "Some clear_errors"]
  show ?thesis
    by (simp add: ghost_blur t is_touched_def keys_def clear_errors_def is_reset_def)
qed

end
